theory Spec2Isabelle
  imports Main
begin

section \<open>Python values\<close>

text \<open>
  The operator of \<^verbatim>\<open>airflow/providers/http/operators/http.py\<close> stores and tests
  dynamically typed values: \<^verbatim>\<open>data\<close> is \<^verbatim>\<open>Any\<close>, and the source tests
  \<^verbatim>\<open>headers\<close>, \<^verbatim>\<open>data\<close>, \<^verbatim>\<open>extra_options\<close>, \<^verbatim>\<open>log_response\<close> and the value a
  response check returns for truthiness. A dictionary carries the address of its object, so
  that two equal dictionaries can be told apart; any other object is an address together
  with what its \<^verbatim>\<open>__bool__\<close> answers.
\<close>

datatype pyval =
    PNone
  | PBool bool
  | PInt int
  | PStr string
  | PList "pyval list"
  | PTuple "pyval list"
  | PDict nat "(pyval \<times> pyval) list"
  | PObj nat bool

text \<open>Python's truth value testing, as \<^verbatim>\<open>if v:\<close>, \<^verbatim>\<open>not v\<close> and \<^verbatim>\<open>v or w\<close> apply it.\<close>

fun truthy :: "pyval \<Rightarrow> bool" where
  "truthy PNone = False"
| "truthy (PBool b) = b"
| "truthy (PInt i) = (i \<noteq> 0)"
| "truthy (PStr s) = (s \<noteq> [])"
| "truthy (PList xs) = (xs \<noteq> [])"
| "truthy (PTuple xs) = (xs \<noteq> [])"
| "truthy (PDict a kvs) = (kvs \<noteq> [])"
| "truthy (PObj a b) = b"

text \<open>Keyword arguments and the execution context: names with their values.\<close>

type_synonym kwargs = "(string \<times> pyval) list"

type_synonym py_context = "(string \<times> pyval) list"

section \<open>Exceptions, responses and callables\<close>

text \<open>
  The only exception the operator raises itself is \<^verbatim>\<open>AirflowException\<close>; every other
  one comes out of a collaborator and is kept as the name of its class and its message.
\<close>

datatype exn =
    AirflowException string
  | PyException string string

text \<open>The \<^verbatim>\<open>requests\<close> response: the operator reads only its \<^verbatim>\<open>text\<close>.\<close>

record response =
  status_code :: int
  response_text :: string

text \<open>
  A user-supplied callable (\<^verbatim>\<open>response_check\<close>, \<^verbatim>\<open>response_filter\<close>): the names of
  its declared parameters, which \<^verbatim>\<open>determine_kwargs\<close> inspects, and what a call
  \<^verbatim>\<open>f(response, **kwargs)\<close> gives: a value, or a raised exception. A function object is
  truthy, so the tests \<^verbatim>\<open>if self.response_check:\<close> and \<^verbatim>\<open>if self.response_filter:\<close>
  distinguish \<^verbatim>\<open>None\<close> from a callable.
\<close>

record callable =
  parameters :: "string list"
  call :: "response \<Rightarrow> kwargs \<Rightarrow> exn + pyval"

datatype auth_type = HTTPBasicAuth | AuthClass string

section \<open>The operator\<close>

text \<open>
  The attributes \<^verbatim>\<open>SimpleHttpOperator.__init__\<close> assigns (\<open>http_method\<close> is the
  attribute \<^verbatim>\<open>method\<close>). The record is extensible: its extension slot holds whatever
  else the object carries (the attributes of \<^verbatim>\<open>BaseOperator\<close>).
\<close>

record task =
  http_conn_id :: string
  http_method :: string
  endpoint :: "string option"
  headers :: pyval
  data :: pyval
  response_check :: "callable option"
  response_filter :: "callable option"
  extra_options :: pyval
  log_response :: pyval
  auth_type :: auth_type

text \<open>The keyword-only parameters of \<^verbatim>\<open>__init__\<close>, and their defaults.\<close>

record init_args =
  arg_endpoint :: "string option"
  arg_method :: string
  arg_data :: pyval
  arg_headers :: pyval
  arg_response_check :: "callable option"
  arg_response_filter :: "callable option"
  arg_extra_options :: pyval
  arg_http_conn_id :: string
  arg_log_response :: pyval
  arg_auth_type :: auth_type
  arg_kwargs :: kwargs

definition default_args :: init_args where
  "default_args =
     \<lparr>arg_endpoint = None, arg_method = ''POST'', arg_data = PNone, arg_headers = PNone,
      arg_response_check = None, arg_response_filter = None, arg_extra_options = PNone,
      arg_http_conn_id = ''http_default'', arg_log_response = PBool False,
      arg_auth_type = HTTPBasicAuth, arg_kwargs = []\<rparr>"

text \<open>
  \<^verbatim>\<open>v or {}\<close>: the value itself when it is truthy; otherwise the dictionary display is
  evaluated, which allocates a new empty dictionary at the next free address \<open>h\<close>.
\<close>

definition or_empty_dict :: "pyval \<Rightarrow> nat \<Rightarrow> pyval \<times> nat" where
  "or_empty_dict v h = (if truthy v then (v, h) else (PDict h [], Suc h))"

text \<open>
  \<^verbatim>\<open>__init__\<close>. \<open>BaseOperator_init\<close> stands for \<^verbatim>\<open>super().__init__(**kwargs)\<close>, which is
  not part of this file: it raises, or gives the base part of the object. \<open>h\<close> is the next
  free address before the assignments; the new one is returned with the object.
\<close>

definition SimpleHttpOperator_init ::
  "(kwargs \<Rightarrow> exn + 'z) \<Rightarrow> init_args \<Rightarrow> nat \<Rightarrow> exn + ('z task_scheme \<times> nat)" where
  "SimpleHttpOperator_init BaseOperator_init a h =
     (case BaseOperator_init (arg_kwargs a) of
        Inl e \<Rightarrow> Inl e
      | Inr base \<Rightarrow>
          (let (hs, h1) = or_empty_dict (arg_headers a) h;
               (d, h2) = or_empty_dict (arg_data a) h1;
               (x, h3) = or_empty_dict (arg_extra_options a) h2
           in Inr (\<lparr>http_conn_id = arg_http_conn_id a,
                    http_method = arg_method a,
                    endpoint = arg_endpoint a,
                    headers = hs,
                    data = d,
                    response_check = arg_response_check a,
                    response_filter = arg_response_filter a,
                    extra_options = x,
                    log_response = arg_log_response a,
                    auth_type = arg_auth_type a,
                    \<dots> = base\<rparr>, h3)))"

section \<open>Collaborators and observable events\<close>

text \<open>
  \<^verbatim>\<open>HttpHook\<close> and \<^verbatim>\<open>determine_kwargs\<close> are imported, not defined, by the operator's
  file, so they are parameters of the model. A hook is built from the method, the
  connection id and the auth type; its \<^verbatim>\<open>run(endpoint, data, headers, extra_options)\<close>
  gives a response or raises. \<^verbatim>\<open>determine_kwargs(func, args, kwargs)\<close> gives the keyword
  arguments for a callable, or raises.
\<close>

record hook =
  run :: "string option \<Rightarrow> pyval \<Rightarrow> pyval \<Rightarrow> pyval \<Rightarrow> exn + response"

record env =
  HttpHook :: "string \<Rightarrow> string \<Rightarrow> auth_type \<Rightarrow> hook"
  determine_kwargs :: "callable \<Rightarrow> response list \<Rightarrow> py_context \<Rightarrow> exn + kwargs"

text \<open>
  What an execution does to the outside, in order: a message given to
  \<^verbatim>\<open>self.log.info\<close>, a call of \<^verbatim>\<open>http.run\<close>, an invocation of the response check,
  an invocation of the response filter.
\<close>

datatype event =
    LogInfo string
  | HttpRun "string option" pyval pyval pyval
  | CallCheck response kwargs
  | CallFilter response kwargs

text \<open>
  How an execution ends: the value returned or the exception raised, the task object as
  the execution leaves it, and the events in the order they happened.
\<close>

record 'z outcome =
  result :: "exn + pyval"
  self_after :: "'z task_scheme"
  trace :: "event list"

section \<open>execute\<close>

definition validation_error :: exn where
  "validation_error = AirflowException ''Response check returned False.''"

text \<open>
  The block \<^verbatim>\<open>if self.response_check: ...\<close>: the exception it raises, or \<open>None\<close> when
  control falls through to the next statement, with the events of the block.
\<close>

definition execute_check ::
  "env \<Rightarrow> 'z task_scheme \<Rightarrow> py_context \<Rightarrow> response \<Rightarrow> exn option \<times> event list" where
  "execute_check e self ctx resp =
     (case response_check self of
        None \<Rightarrow> (None, [])
      | Some chk \<Rightarrow>
          (case determine_kwargs e chk [resp] ctx of
             Inl ex \<Rightarrow> (Some ex, [])
           | Inr kw \<Rightarrow>
               (case call chk resp kw of
                  Inl ex \<Rightarrow> (Some ex, [CallCheck resp kw])
                | Inr v \<Rightarrow>
                    if \<not> truthy v then (Some validation_error, [CallCheck resp kw])
                    else (None, [CallCheck resp kw]))))"

text \<open>
  The block \<^verbatim>\<open>if self.response_filter: ...\<close> and the final
  \<^verbatim>\<open>return response.text\<close>: the result of the execution, with the events of the block.
\<close>

definition execute_filter ::
  "env \<Rightarrow> 'z task_scheme \<Rightarrow> py_context \<Rightarrow> response \<Rightarrow> (exn + pyval) \<times> event list" where
  "execute_filter e self ctx resp =
     (case response_filter self of
        Some flt \<Rightarrow>
          (case determine_kwargs e flt [resp] ctx of
             Inl ex \<Rightarrow> (Inl ex, [])
           | Inr kw \<Rightarrow> (call flt resp kw, [CallFilter resp kw]))
      | None \<Rightarrow> (Inr (PStr (response_text resp)), []))"

text \<open>\<^verbatim>\<open>SimpleHttpOperator.execute(self, context)\<close>.\<close>

definition execute :: "env \<Rightarrow> 'z task_scheme \<Rightarrow> py_context \<Rightarrow> 'z outcome" where
  "execute e self ctx =
     (let http = HttpHook e (http_method self) (http_conn_id self) (auth_type self);
          t0 = [LogInfo ''Calling HTTP method'',
                HttpRun (endpoint self) (data self) (headers self) (extra_options self)]
      in case run http (endpoint self) (data self) (headers self) (extra_options self) of
           Inl ex \<Rightarrow> \<lparr>result = Inl ex, self_after = self, trace = t0\<rparr>
         | Inr resp \<Rightarrow>
             (let t1 = t0 @ (if truthy (log_response self)
                              then [LogInfo (response_text resp)] else [])
              in case execute_check e self ctx resp of
                   (Some ex, evs) \<Rightarrow> \<lparr>result = Inl ex, self_after = self, trace = t1 @ evs\<rparr>
                 | (None, evs) \<Rightarrow>
                     (case execute_filter e self ctx resp of
                        (r, evs') \<Rightarrow>
                          \<lparr>result = r, self_after = self, trace = t1 @ evs @ evs'\<rparr>)))"

text \<open>The response a task's request gets: what \<^verbatim>\<open>http.run\<close> gives for its arguments.\<close>

definition http_call :: "env \<Rightarrow> 'z task_scheme \<Rightarrow> exn + response" where
  "http_call e self =
     run (HttpHook e (http_method self) (http_conn_id self) (auth_type self))
       (endpoint self) (data self) (headers self) (extra_options self)"

text \<open>The messages given to \<^verbatim>\<open>self.log.info\<close>, in the order of their emission.\<close>

fun log_emissions :: "event list \<Rightarrow> string list" where
  "log_emissions [] = []"
| "log_emissions (LogInfo m # evs) = m # log_emissions evs"
| "log_emissions (ev # evs) = log_emissions evs"

section \<open>execute, with the task object shared\<close>

text \<open>
  The task is a mutable object, and what \<open>execute\<close> calls can hold a reference into it:
  \<^verbatim>\<open>http.run\<close> is given the very dictionaries stored as \<^verbatim>\<open>self.data\<close>,
  \<^verbatim>\<open>self.headers\<close> and \<^verbatim>\<open>self.extra_options\<close>, a callable can be a closure over the
  task or be handed it out of the context, and \<^verbatim>\<open>self.log\<close> is an attribute of the
  base class. Here every collaborator is a function of the object as well, and gives back
  the object as its call leaves it.
\<close>

record 'z shared_hook =
  run_on :: "string option \<Rightarrow> pyval \<Rightarrow> pyval \<Rightarrow> pyval \<Rightarrow> 'z task_scheme
               \<Rightarrow> (exn + response) \<times> 'z task_scheme"

record 'z shared_env =
  info_on :: "string \<Rightarrow> 'z task_scheme \<Rightarrow> 'z task_scheme"
  HttpHook_on :: "string \<Rightarrow> string \<Rightarrow> auth_type \<Rightarrow> 'z shared_hook"
  determine_kwargs_on :: "callable \<Rightarrow> response list \<Rightarrow> py_context \<Rightarrow> 'z task_scheme
               \<Rightarrow> (exn + kwargs) \<times> 'z task_scheme"
  call_on :: "callable \<Rightarrow> response \<Rightarrow> kwargs \<Rightarrow> 'z task_scheme
               \<Rightarrow> (exn + pyval) \<times> 'z task_scheme"

text \<open>What Python raises when the attribute called is \<^verbatim>\<open>None\<close> by the time of the call.\<close>

definition not_callable :: exn where
  "not_callable =
     PyException ''TypeError''
       (CHR 0x27 # ''NoneType'' @ CHR 0x27 # '' object is not callable'')"

text \<open>
  The block \<^verbatim>\<open>if self.response_check: ...\<close>. Each \<^verbatim>\<open>self.response_check\<close> reads the
  attribute of the object as it is at that point: for the test and the argument of
  \<^verbatim>\<open>determine_kwargs\<close> before that call, for the invocation after it.
\<close>

definition execute_check_shared ::
  "'z shared_env \<Rightarrow> 'z task_scheme \<Rightarrow> py_context \<Rightarrow> response
     \<Rightarrow> exn option \<times> 'z task_scheme \<times> event list" where
  "execute_check_shared e s ctx resp =
     (case response_check s of
        None \<Rightarrow> (None, s, [])
      | Some chk \<Rightarrow>
          (case determine_kwargs_on e chk [resp] ctx s of
             (Inl ex, s1) \<Rightarrow> (Some ex, s1, [])
           | (Inr kw, s1) \<Rightarrow>
               (case response_check s1 of
                  None \<Rightarrow> (Some not_callable, s1, [])
                | Some chk1 \<Rightarrow>
                    (case call_on e chk1 resp kw s1 of
                       (Inl ex, s2) \<Rightarrow> (Some ex, s2, [CallCheck resp kw])
                     | (Inr v, s2) \<Rightarrow>
                         if \<not> truthy v then (Some validation_error, s2, [CallCheck resp kw])
                         else (None, s2, [CallCheck resp kw])))))"

text \<open>The block \<^verbatim>\<open>if self.response_filter: ...\<close> and the final \<^verbatim>\<open>return\<close>.\<close>

definition execute_filter_shared ::
  "'z shared_env \<Rightarrow> 'z task_scheme \<Rightarrow> py_context \<Rightarrow> response
     \<Rightarrow> (exn + pyval) \<times> 'z task_scheme \<times> event list" where
  "execute_filter_shared e s ctx resp =
     (case response_filter s of
        Some flt \<Rightarrow>
          (case determine_kwargs_on e flt [resp] ctx s of
             (Inl ex, s1) \<Rightarrow> (Inl ex, s1, [])
           | (Inr kw, s1) \<Rightarrow>
               (case response_filter s1 of
                  None \<Rightarrow> (Inl not_callable, s1, [])
                | Some flt1 \<Rightarrow>
                    (case call_on e flt1 resp kw s1 of
                       (r, s2) \<Rightarrow> (r, s2, [CallFilter resp kw]))))
      | None \<Rightarrow> (Inr (PStr (response_text resp)), s, []))"

text \<open>
  \<^verbatim>\<open>SimpleHttpOperator.execute(self, context)\<close>, statement by statement, on the object
  as the calls before have left it. \<open>execute\<close> itself has no assignment to an attribute.
\<close>

definition execute_shared ::
  "'z shared_env \<Rightarrow> 'z task_scheme \<Rightarrow> py_context \<Rightarrow> 'z outcome" where
  "execute_shared e self ctx =
     (let http = HttpHook_on e (http_method self) (http_conn_id self) (auth_type self);
          s1 = info_on e ''Calling HTTP method'' self;
          t0 = [LogInfo ''Calling HTTP method'',
                HttpRun (endpoint s1) (data s1) (headers s1) (extra_options s1)]
      in case run_on http (endpoint s1) (data s1) (headers s1) (extra_options s1) s1 of
           (Inl ex, s2) \<Rightarrow> \<lparr>result = Inl ex, self_after = s2, trace = t0\<rparr>
         | (Inr resp, s2) \<Rightarrow>
             (let (s3, t1) =
                    (if truthy (log_response s2)
                     then (info_on e (response_text resp) s2, t0 @ [LogInfo (response_text resp)])
                     else (s2, t0))
              in case execute_check_shared e s3 ctx resp of
                   (Some ex, s4, evs) \<Rightarrow>
                     \<lparr>result = Inl ex, self_after = s4, trace = t1 @ evs\<rparr>
                 | (None, s4, evs) \<Rightarrow>
                     (case execute_filter_shared e s4 ctx resp of
                        (r, s5, evs') \<Rightarrow>
                          \<lparr>result = r, self_after = s5, trace = t1 @ evs @ evs'\<rparr>)))"

text \<open>Collaborators that never touch the object: those of \<open>env\<close>, the object passed on.\<close>

definition pure_env :: "env \<Rightarrow> 'z shared_env" where
  "pure_env e =
     \<lparr>info_on = (\<lambda>m s. s),
      HttpHook_on = (\<lambda>m c a. \<lparr>run_on = (\<lambda>ep d hs x s. (run (HttpHook e m c a) ep d hs x, s))\<rparr>),
      determine_kwargs_on = (\<lambda>f rs ctx s. (determine_kwargs e f rs ctx, s)),
      call_on = (\<lambda>f r kw s. (call f r kw, s))\<rparr>"

section \<open>Sample collaborators, callables and tasks\<close>

text \<open>
  A server that answers every request with the text \<open>pong\<close>, except on the endpoint
  \<open>down\<close>, where the connection is refused; and a \<^verbatim>\<open>determine_kwargs\<close> that passes the
  context entries whose key is a declared parameter of the callable.
\<close>

definition ex_response :: response where
  "ex_response = \<lparr>status_code = 200, response_text = ''pong''\<rparr>"

definition ex_hook :: hook where
  "ex_hook =
     \<lparr>run = (\<lambda>ep d hs x.
        if ep = Some ''down'' then Inl (PyException ''ConnectionError'' ''refused'')
        else Inr ex_response)\<rparr>"

definition ex_env :: env where
  "ex_env =
     \<lparr>HttpHook = (\<lambda>m c a. ex_hook),
      determine_kwargs = (\<lambda>f args ctx. Inr (filter (\<lambda>kv. fst kv \<in> set (parameters f)) ctx))\<rparr>"

definition ex_ctx :: py_context where
  "ex_ctx = [(''ds'', PStr ''2022-01-01''), (''run_id'', PStr ''manual'')]"

text \<open>\<^verbatim>\<open>lambda response: response.text\<close>: a check whose value is a non-empty string.\<close>

definition check_text :: callable where
  "check_text = \<lparr>parameters = [''response''], call = (\<lambda>r kw. Inr (PStr (response_text r)))\<rparr>"

text \<open>\<^verbatim>\<open>lambda response: response.text == "ping"\<close>: \<^verbatim>\<open>False\<close> on the sample response.\<close>

definition check_ping :: callable where
  "check_ping =
     \<lparr>parameters = [''response''], call = (\<lambda>r kw. Inr (PBool (response_text r = ''ping'')))\<rparr>"

text \<open>A check that ends without a \<^verbatim>\<open>return\<close> statement: its value is \<^verbatim>\<open>None\<close>.\<close>

definition check_none :: callable where
  "check_none = \<lparr>parameters = [''response'', ''ds''], call = (\<lambda>r kw. Inr PNone)\<rparr>"

text \<open>\<^verbatim>\<open>lambda response, ds: [response.text, ds]\<close>.\<close>

definition filter_list :: callable where
  "filter_list =
     \<lparr>parameters = [''response'', ''ds''],
      call = (\<lambda>r kw. Inr (PList (PStr (response_text r) # map snd kw)))\<rparr>"

text \<open>\<^verbatim>\<open>lambda response: json.loads(response.text)\<close> on a body that is not JSON.\<close>

definition filter_json :: callable where
  "filter_json =
     \<lparr>parameters = [''response''],
      call = (\<lambda>r kw. Inl (PyException ''JSONDecodeError'' ''Expecting value''))\<rparr>"

definition ex_task :: task where
  "ex_task =
     \<lparr>http_conn_id = ''http_default'', http_method = ''GET'', endpoint = Some ''ping'',
      headers = PDict 0 [], data = PDict 1 [], response_check = None, response_filter = None,
      extra_options = PDict 2 [], log_response = PBool False, auth_type = HTTPBasicAuth\<rparr>"

text \<open>\<^verbatim>\<open>d["seen"] = True\<close> on a dictionary \<open>d\<close> without that key: the same object, one item more.\<close>

fun mark_seen :: "pyval \<Rightarrow> pyval" where
  "mark_seen (PDict a kvs) = PDict a (kvs @ [(PStr ''seen'', PBool True)])"
| "mark_seen v = v"

text \<open>
  \<^verbatim>\<open>def check(response, task): task.data["seen"] = True; return True\<close>: a check that
  declares the parameter \<^verbatim>\<open>task\<close>; and collaborators as the sample ones, where a callable
  that is given the keyword \<^verbatim>\<open>task\<close> does that assignment on the task.
\<close>

definition check_marks :: callable where
  "check_marks =
     \<lparr>parameters = [''response'', ''task''], call = (\<lambda>r kw. Inr (PBool True))\<rparr>"

definition marking_env :: "unit shared_env" where
  "marking_env =
     (pure_env ex_env)
       \<lparr>call_on := (\<lambda>f r kw s.
          (call f r kw,
           if ''task'' \<in> fst ` set kw then s\<lparr>data := mark_seen (data s)\<rparr> else s))\<rparr>"

definition task_ctx :: py_context where
  "task_ctx = (''task'', PObj 9 True) # ex_ctx"

section \<open>Auxiliary facts\<close>

lemma log_emissions_append:
  "log_emissions (xs @ ys) = log_emissions xs @ log_emissions ys"
  by (induction xs rule: log_emissions.induct) simp_all

lemma falsy_values:
  "\<not> truthy (PBool False)" "\<not> truthy PNone" "\<not> truthy (PInt 0)" "\<not> truthy (PStr '''')"
  "\<not> truthy (PList [])" "\<not> truthy (PTuple [])" "\<not> truthy (PDict a [])"
  by simp_all

lemma ex_http_call: "http_call ex_env ex_task = Inr ex_response"
  by (simp add: http_call_def ex_env_def ex_hook_def ex_task_def)

lemma ex_http_call_update [simp]:
  "http_call ex_env (ex_task\<lparr>response_check := c\<rparr>) = Inr ex_response"
  "http_call ex_env (ex_task\<lparr>response_filter := f\<rparr>) = Inr ex_response"
  "http_call ex_env (ex_task\<lparr>response_check := c, response_filter := f\<rparr>) = Inr ex_response"
  "http_call ex_env (ex_task\<lparr>log_response := l\<rparr>) = Inr ex_response"
  "http_call ex_env (ex_task\<lparr>log_response := l, response_check := c\<rparr>) = Inr ex_response"
  by (simp_all add: http_call_def ex_env_def ex_hook_def ex_task_def)

text \<open>
  The sample task is what the constructor builds for the endpoint \<open>ping\<close> with the HTTP
  verb \<open>GET\<close>, every other argument left at its default.
\<close>

lemma ex_task_constructed:
  "SimpleHttpOperator_init (\<lambda>kw. Inr ())
     (default_args\<lparr>arg_endpoint := Some ''ping'', arg_method := ''GET''\<rparr>) 0 = Inr (ex_task, 3)"
  by (simp add: SimpleHttpOperator_init_def default_args_def or_empty_dict_def ex_task_def
      numeral_3_eq_3)

section \<open>The result of an execution\<close>

text \<open>
  C1. In every execution in which the response check is set, is invoked on the response and
  returns a false value, \<open>execute\<close> raises the validation error
  (\<^verbatim>\<open>AirflowException("Response check returned False.")\<close>), and the response filter is
  not invoked at any point of the execution.
\<close>

theorem check_false_raises_validation_error:
  assumes "response_check self = Some chk"
      and "CallCheck resp kw \<in> set (trace (execute e self ctx))"
      and "call chk resp kw = Inr v"
      and "\<not> truthy v"
  shows "result (execute e self ctx) = Inl validation_error
       \<and> (\<forall>r k. CallFilter r k \<notin> set (trace (execute e self ctx)))"
  using assms
  by (auto simp: execute_def execute_check_def execute_filter_def Let_def
      split: sum.splits option.splits if_splits prod.splits)

theorem check_false_raises_validation_error_witness:
  "response_check (ex_task\<lparr>response_check := Some check_ping,
       response_filter := Some filter_list\<rparr>) = Some check_ping
   \<and> CallCheck ex_response [] \<in> set (trace (execute ex_env
       (ex_task\<lparr>response_check := Some check_ping, response_filter := Some filter_list\<rparr>) ex_ctx))
   \<and> call check_ping ex_response [] = Inr (PBool False)
   \<and> \<not> truthy (PBool False)
   \<and> result (execute ex_env
       (ex_task\<lparr>response_check := Some check_ping, response_filter := Some filter_list\<rparr>) ex_ctx)
       = Inl (AirflowException ''Response check returned False.'')
   \<and> (\<forall>r k. CallFilter r k \<notin> set (trace (execute ex_env
       (ex_task\<lparr>response_check := Some check_ping, response_filter := Some filter_list\<rparr>)
       ex_ctx)))"
proof -
  let ?t = "ex_task\<lparr>response_check := Some check_ping, response_filter := Some filter_list\<rparr>"
  have h1: "response_check ?t = Some check_ping"
    by simp
  have h2: "CallCheck ex_response [] \<in> set (trace (execute ex_env ?t ex_ctx))"
    by (simp add: execute_def execute_check_def ex_env_def ex_hook_def ex_task_def ex_ctx_def
        check_ping_def ex_response_def)
  have h3: "call check_ping ex_response [] = Inr (PBool False)"
    by (simp add: check_ping_def ex_response_def)
  have h4: "\<not> truthy (PBool False)"
    by simp
  have c: "result (execute ex_env ?t ex_ctx) = Inl validation_error
       \<and> (\<forall>r k. CallFilter r k \<notin> set (trace (execute ex_env ?t ex_ctx)))"
    by (rule check_false_raises_validation_error [OF h1 h2 h3 h4])
  show ?thesis
    using h1 h2 h3 h4 c by (simp add: validation_error_def)
qed

text \<open>
  C2. In every execution in which the HTTP call gives a response, the response check is
  not set or returns a true value, and the response filter is set and returns a value,
  \<open>execute\<close> returns the value of the filter (not the text of the response).
\<close>

theorem filter_value_is_result:
  assumes "http_call e self = Inr resp"
      and "response_check self = None \<or>
           (\<exists>chk kw v. response_check self = Some chk \<and>
              determine_kwargs e chk [resp] ctx = Inr kw \<and>
              call chk resp kw = Inr v \<and> truthy v)"
      and "response_filter self = Some flt"
      and "determine_kwargs e flt [resp] ctx = Inr kwf"
      and "call flt resp kwf = Inr w"
  shows "result (execute e self ctx) = Inr w"
  using assms
  by (auto simp: execute_def http_call_def execute_check_def execute_filter_def Let_def)

theorem filter_value_is_result_witness:
  "http_call ex_env (ex_task\<lparr>response_check := Some check_text,
       response_filter := Some filter_list\<rparr>) = Inr ex_response
   \<and> response_check (ex_task\<lparr>response_check := Some check_text,
       response_filter := Some filter_list\<rparr>) = Some check_text
   \<and> determine_kwargs ex_env check_text [ex_response] ex_ctx = Inr []
   \<and> call check_text ex_response [] = Inr (PStr ''pong'')
   \<and> truthy (PStr ''pong'')
   \<and> response_filter (ex_task\<lparr>response_check := Some check_text,
       response_filter := Some filter_list\<rparr>) = Some filter_list
   \<and> determine_kwargs ex_env filter_list [ex_response] ex_ctx = Inr [(''ds'', PStr ''2022-01-01'')]
   \<and> call filter_list ex_response [(''ds'', PStr ''2022-01-01'')]
       = Inr (PList [PStr ''pong'', PStr ''2022-01-01''])
   \<and> result (execute ex_env (ex_task\<lparr>response_check := Some check_text,
       response_filter := Some filter_list\<rparr>) ex_ctx)
       = Inr (PList [PStr ''pong'', PStr ''2022-01-01''])"
proof -
  let ?t = "ex_task\<lparr>response_check := Some check_text, response_filter := Some filter_list\<rparr>"
  let ?kw = "[(''ds'', PStr ''2022-01-01'')]"
  have h1: "http_call ex_env ?t = Inr ex_response"
    by simp
  have k: "determine_kwargs ex_env check_text [ex_response] ex_ctx = Inr []"
    by (simp add: ex_env_def check_text_def ex_ctx_def)
  have v: "call check_text ex_response [] = Inr (PStr ''pong'')"
    by (simp add: check_text_def ex_response_def)
  have h2: "response_check ?t = None \<or>
           (\<exists>chk kw v. response_check ?t = Some chk \<and>
              determine_kwargs ex_env chk [ex_response] ex_ctx = Inr kw \<and>
              call chk ex_response kw = Inr v \<and> truthy v)"
    using k v by simp
  have h3: "response_filter ?t = Some filter_list"
    by simp
  have h4: "determine_kwargs ex_env filter_list [ex_response] ex_ctx = Inr ?kw"
    by (simp add: ex_env_def filter_list_def ex_ctx_def)
  have h5: "call filter_list ex_response ?kw = Inr (PList [PStr ''pong'', PStr ''2022-01-01''])"
    by (simp add: filter_list_def ex_response_def)
  have c: "result (execute ex_env ?t ex_ctx) = Inr (PList [PStr ''pong'', PStr ''2022-01-01''])"
    by (rule filter_value_is_result [OF h1 h2 h3 h4 h5])
  show ?thesis
    using h1 k v h3 h4 h5 c by simp
qed

text \<open>
  C3. In every execution in which the HTTP call gives a response and neither the response
  check nor the response filter is set, \<open>execute\<close> returns the text of the response, the
  very string.
\<close>

theorem no_callables_returns_text:
  assumes "http_call e self = Inr resp"
      and "response_check self = None"
      and "response_filter self = None"
  shows "result (execute e self ctx) = Inr (PStr (response_text resp))"
  using assms
  by (simp add: execute_def http_call_def execute_check_def execute_filter_def)

theorem no_callables_returns_text_witness:
  "http_call ex_env ex_task = Inr ex_response
   \<and> response_check ex_task = None
   \<and> response_filter ex_task = None
   \<and> result (execute ex_env ex_task ex_ctx) = Inr (PStr ''pong'')"
proof -
  have h2: "response_check ex_task = None" and h3: "response_filter ex_task = None"
    by (simp_all add: ex_task_def)
  have c: "result (execute ex_env ex_task ex_ctx) = Inr (PStr (response_text ex_response))"
    by (rule no_callables_returns_text [OF ex_http_call h2 h3])
  show ?thesis
    using ex_http_call h2 h3 c by (simp add: ex_response_def)
qed

section \<open>Log emissions\<close>

text \<open>
  C4, as the specification states it, fails: \<open>execute\<close> always gives the message
  \<open>Calling HTTP method\<close> to \<^verbatim>\<open>self.log.info\<close> before the request, so an execution with
  \<^verbatim>\<open>log_response\<close> false has one emission, not zero, and one with \<^verbatim>\<open>log_response\<close>
  true has two, not one.
\<close>

theorem log_emission_count_counterexample:
  "log_response ex_task = PBool False
   \<and> log_emissions (trace (execute ex_env ex_task ex_ctx)) = [''Calling HTTP method'']
   \<and> length (log_emissions (trace (execute ex_env ex_task ex_ctx))) \<noteq> 0
   \<and> log_response (ex_task\<lparr>log_response := PBool True\<rparr>) = PBool True
   \<and> length (log_emissions
        (trace (execute ex_env (ex_task\<lparr>log_response := PBool True\<rparr>) ex_ctx))) = 2"
  by (simp add: execute_def execute_check_def execute_filter_def ex_env_def ex_hook_def
      ex_task_def ex_response_def)

text \<open>
  C4, amended. Every call of \<open>execute\<close> emits the fixed informational message
  \<open>Calling HTTP method\<close> once, before the request, and after it zero or one message more:
  exactly one, the full text of the response, when the HTTP call gives a response and
  \<^verbatim>\<open>log_response\<close> is true; none when \<^verbatim>\<open>log_response\<close> is false or the HTTP call
  raises. The trace begins with the fixed message, the one request follows it, and \<open>rest\<close>
  is all that happens after the request.
\<close>

theorem log_emissions_of_execute:
  "\<exists>rest. trace (execute e self ctx) =
       LogInfo ''Calling HTTP method''
         # HttpRun (endpoint self) (data self) (headers self) (extra_options self) # rest
     \<and> (\<forall>ep d hs x. HttpRun ep d hs x \<notin> set rest)
     \<and> log_emissions rest =
         (case http_call e self of
            Inl ex \<Rightarrow> []
          | Inr resp \<Rightarrow> if truthy (log_response self) then [response_text resp] else [])"
  by (auto simp: execute_def http_call_def execute_check_def execute_filter_def Let_def
        log_emissions_append
      split: sum.splits option.splits if_splits prod.splits)

theorem log_emissions_of_execute_witness:
  "\<exists>rest. trace (execute ex_env
       (ex_task\<lparr>log_response := PBool True, response_check := Some check_text\<rparr>) ex_ctx) =
       LogInfo ''Calling HTTP method''
         # HttpRun (Some ''ping'') (PDict 1 []) (PDict 0 []) (PDict 2 []) # rest
     \<and> (\<forall>ep d hs x. HttpRun ep d hs x \<notin> set rest)
     \<and> log_emissions rest = [''pong'']"
proof -
  let ?t = "ex_task\<lparr>log_response := PBool True, response_check := Some check_text\<rparr>"
  from log_emissions_of_execute [of ex_env ?t ex_ctx]
  obtain rest where tr: "trace (execute ex_env ?t ex_ctx) =
       LogInfo ''Calling HTTP method''
         # HttpRun (endpoint ?t) (data ?t) (headers ?t) (extra_options ?t) # rest"
    and nr: "\<forall>ep d hs x. HttpRun ep d hs x \<notin> set rest"
    and le: "log_emissions rest =
         (case http_call ex_env ?t of
            Inl ex \<Rightarrow> []
          | Inr resp \<Rightarrow> if truthy (log_response ?t) then [response_text resp] else [])"
    by blast
  from le have le': "log_emissions rest = [''pong'']"
    by (simp add: ex_response_def)
  from tr have tr': "trace (execute ex_env ?t ex_ctx) =
       LogInfo ''Calling HTTP method''
         # HttpRun (Some ''ping'') (PDict 1 []) (PDict 0 []) (PDict 2 []) # rest"
    by (simp add: ex_task_def)
  from tr' nr le' show ?thesis
    by blast
qed

section \<open>Failures of the collaborators\<close>

text \<open>
  C5. In every execution in which the HTTP call raises, \<open>execute\<close> raises that very
  exception; the request was made once (no retry), and after it nothing happens: the text of
  a response is not logged, and neither the response check nor the response filter is
  invoked.
\<close>

theorem http_failure_propagates:
  assumes "http_call e self = Inl ex"
  shows "result (execute e self ctx) = Inl ex
       \<and> trace (execute e self ctx) =
           [LogInfo ''Calling HTTP method'',
            HttpRun (endpoint self) (data self) (headers self) (extra_options self)]"
  using assms by (simp add: execute_def http_call_def)

theorem http_failure_propagates_witness:
  "http_call ex_env (ex_task\<lparr>endpoint := Some ''down'', log_response := PBool True,
       response_check := Some check_text, response_filter := Some filter_list\<rparr>)
     = Inl (PyException ''ConnectionError'' ''refused'')
   \<and> result (execute ex_env (ex_task\<lparr>endpoint := Some ''down'', log_response := PBool True,
       response_check := Some check_text, response_filter := Some filter_list\<rparr>) ex_ctx)
     = Inl (PyException ''ConnectionError'' ''refused'')
   \<and> trace (execute ex_env (ex_task\<lparr>endpoint := Some ''down'', log_response := PBool True,
       response_check := Some check_text, response_filter := Some filter_list\<rparr>) ex_ctx)
     = [LogInfo ''Calling HTTP method'',
        HttpRun (Some ''down'') (PDict 1 []) (PDict 0 []) (PDict 2 [])]"
proof -
  let ?t = "ex_task\<lparr>endpoint := Some ''down'', log_response := PBool True,
       response_check := Some check_text, response_filter := Some filter_list\<rparr>"
  have h: "http_call ex_env ?t = Inl (PyException ''ConnectionError'' ''refused'')"
    by (simp add: http_call_def ex_env_def ex_hook_def ex_task_def)
  have c: "result (execute ex_env ?t ex_ctx) = Inl (PyException ''ConnectionError'' ''refused'')
       \<and> trace (execute ex_env ?t ex_ctx) =
           [LogInfo ''Calling HTTP method'',
            HttpRun (endpoint ?t) (data ?t) (headers ?t) (extra_options ?t)]"
    by (rule http_failure_propagates [OF h])
  show ?thesis
    using h c by (simp add: ex_task_def)
qed

text \<open>
  C6. In every execution in which the response filter is set, is invoked and raises an
  exception, that very exception comes out of \<open>execute\<close>.
\<close>

theorem filter_exception_propagates:
  assumes "response_filter self = Some flt"
      and "CallFilter resp kw \<in> set (trace (execute e self ctx))"
      and "call flt resp kw = Inl ex"
  shows "result (execute e self ctx) = Inl ex"
  using assms
  by (auto simp: execute_def execute_check_def execute_filter_def Let_def
      split: sum.splits option.splits if_splits prod.splits)

theorem filter_exception_propagates_witness:
  "response_filter (ex_task\<lparr>response_filter := Some filter_json\<rparr>) = Some filter_json
   \<and> CallFilter ex_response [] \<in> set (trace (execute ex_env
        (ex_task\<lparr>response_filter := Some filter_json\<rparr>) ex_ctx))
   \<and> call filter_json ex_response [] = Inl (PyException ''JSONDecodeError'' ''Expecting value'')
   \<and> result (execute ex_env (ex_task\<lparr>response_filter := Some filter_json\<rparr>) ex_ctx)
       = Inl (PyException ''JSONDecodeError'' ''Expecting value'')"
proof -
  let ?t = "ex_task\<lparr>response_filter := Some filter_json\<rparr>"
  have h1: "response_filter ?t = Some filter_json"
    by simp
  have h2: "CallFilter ex_response [] \<in> set (trace (execute ex_env ?t ex_ctx))"
    by (simp add: execute_def execute_check_def execute_filter_def ex_env_def ex_hook_def
        ex_task_def ex_ctx_def filter_json_def)
  have h3: "call filter_json ex_response [] = Inl (PyException ''JSONDecodeError'' ''Expecting value'')"
    by (simp add: filter_json_def)
  have c: "result (execute ex_env ?t ex_ctx) = Inl (PyException ''JSONDecodeError'' ''Expecting value'')"
    by (rule filter_exception_propagates [OF h1 h2 h3])
  show ?thesis
    using h1 h2 h3 c by simp
qed

section \<open>The task object\<close>

text \<open>
  With collaborators that never touch the object, the execution on the shared object is
  the execution of the sections above.
\<close>

lemma execute_shared_pure: "execute_shared (pure_env e) self ctx = execute e self ctx"
  by (auto simp: execute_shared_def execute_def execute_check_shared_def execute_check_def
        execute_filter_shared_def execute_filter_def pure_env_def Let_def
      split: sum.splits option.splits prod.splits)

lemma execute_check_shared_unchanged:
  assumes "\<And>f rs. snd (determine_kwargs_on e f rs ctx s) = s"
      and "\<And>f r kw. snd (call_on e f r kw s) = s"
  shows "fst (snd (execute_check_shared e s ctx resp)) = s"
proof (cases "response_check s")
  case None
  then show ?thesis by (simp add: execute_check_shared_def)
next
  case (Some chk)
  obtain k s1 where k: "determine_kwargs_on e chk [resp] ctx s = (k, s1)"
    by (cases "determine_kwargs_on e chk [resp] ctx s")
  with assms(1) [of chk "[resp]"] have s1: "s1 = s" by simp
  show ?thesis
  proof (cases k)
    case (Inl ex)
    with Some k s1 show ?thesis by (simp add: execute_check_shared_def)
  next
    case (Inr kw)
    obtain v s2 where v: "call_on e chk resp kw s = (v, s2)"
      by (cases "call_on e chk resp kw s")
    with assms(2) [of chk resp kw] have "s2 = s" by simp
    with Some k s1 Inr v show ?thesis
      by (simp add: execute_check_shared_def split: sum.splits)
  qed
qed

lemma execute_filter_shared_unchanged:
  assumes "\<And>f rs. snd (determine_kwargs_on e f rs ctx s) = s"
      and "\<And>f r kw. snd (call_on e f r kw s) = s"
  shows "fst (snd (execute_filter_shared e s ctx resp)) = s"
proof (cases "response_filter s")
  case None
  then show ?thesis by (simp add: execute_filter_shared_def)
next
  case (Some flt)
  obtain k s1 where k: "determine_kwargs_on e flt [resp] ctx s = (k, s1)"
    by (cases "determine_kwargs_on e flt [resp] ctx s")
  with assms(1) [of flt "[resp]"] have s1: "s1 = s" by simp
  show ?thesis
  proof (cases k)
    case (Inl ex)
    with Some k s1 show ?thesis by (simp add: execute_filter_shared_def)
  next
    case (Inr kw)
    obtain v s2 where v: "call_on e flt resp kw s = (v, s2)"
      by (cases "call_on e flt resp kw s")
    with assms(2) [of flt resp kw] have "s2 = s" by simp
    with Some k s1 Inr v show ?thesis
      by (simp add: execute_filter_shared_def)
  qed
qed

text \<open>
  C7, as the specification states it, fails: the task object is not immutable, and
  \<open>execute\<close> hands references to it away. A response check that is given the task out of
  the context and adds an item to its \<^verbatim>\<open>data\<close> dictionary leaves, after an execution
  that returns, a \<^verbatim>\<open>data\<close> that is not what it was before.
\<close>

theorem task_changed_counterexample:
  "data (ex_task\<lparr>response_check := Some check_marks\<rparr>) = PDict 1 []
   \<and> result (execute_shared marking_env (ex_task\<lparr>response_check := Some check_marks\<rparr>) task_ctx)
       = Inr (PStr ''pong'')
   \<and> data (self_after
        (execute_shared marking_env (ex_task\<lparr>response_check := Some check_marks\<rparr>) task_ctx))
       = PDict 1 [(PStr ''seen'', PBool True)]
   \<and> data (self_after
        (execute_shared marking_env (ex_task\<lparr>response_check := Some check_marks\<rparr>) task_ctx))
       \<noteq> data (ex_task\<lparr>response_check := Some check_marks\<rparr>)"
  by (simp add: execute_shared_def execute_check_shared_def execute_filter_shared_def
      marking_env_def pure_env_def ex_env_def ex_hook_def ex_task_def task_ctx_def ex_ctx_def
      check_marks_def ex_response_def)

text \<open>
  C7, amended. \<open>execute\<close> itself assigns no attribute of the task object and stores
  nothing on it: in every execution, whether it returns or raises, in which each call
  \<open>execute\<close> makes (\<^verbatim>\<open>self.log.info\<close>, \<^verbatim>\<open>http.run\<close>, \<^verbatim>\<open>determine_kwargs\<close>, the
  response check, the response filter) leaves the task object as it found it, the object is
  after \<open>execute\<close> what it was before: every attribute \<^verbatim>\<open>__init__\<close> assigned
  (\<^verbatim>\<open>http_conn_id\<close>, \<^verbatim>\<open>method\<close>, \<^verbatim>\<open>endpoint\<close>, \<^verbatim>\<open>headers\<close>, \<^verbatim>\<open>data\<close>,
  \<^verbatim>\<open>extra_options\<close>, \<^verbatim>\<open>log_response\<close>, \<^verbatim>\<open>auth_type\<close>, \<^verbatim>\<open>response_check\<close>,
  \<^verbatim>\<open>response_filter\<close>) has its value, and so has the rest of the object (the extension
  slot of the record).
\<close>

theorem execute_assigns_nothing:
  assumes info: "\<And>m. info_on e m self = self"
      and run: "\<And>m c a ep d hs x. snd (run_on (HttpHook_on e m c a) ep d hs x self) = self"
      and dk: "\<And>f rs. snd (determine_kwargs_on e f rs ctx self) = self"
      and call: "\<And>f r kw. snd (call_on e f r kw self) = self"
  shows "self_after (execute_shared e self ctx) = self"
proof -
  let ?http = "HttpHook_on e (http_method self) (http_conn_id self) (auth_type self)"
  obtain r s2 where r: "run_on ?http (endpoint self) (data self) (headers self)
      (extra_options self) self = (r, s2)"
    by (cases "run_on ?http (endpoint self) (data self) (headers self) (extra_options self) self")
  with run [of "http_method self" "http_conn_id self" "auth_type self" "endpoint self"
      "data self" "headers self" "extra_options self"]
  have s2: "s2 = self" by simp
  show ?thesis
  proof (cases r)
    case (Inl ex)
    with r s2 info show ?thesis by (simp add: execute_shared_def)
  next
    case (Inr resp)
    obtain x s4 evs where c: "execute_check_shared e self ctx resp = (x, s4, evs)"
      by (cases "execute_check_shared e self ctx resp")
    with execute_check_shared_unchanged [of e ctx self resp, OF dk call]
    have s4: "s4 = self" by simp
    obtain y s5 evs' where f: "execute_filter_shared e self ctx resp = (y, s5, evs')"
      by (cases "execute_filter_shared e self ctx resp")
    with execute_filter_shared_unchanged [of e ctx self resp, OF dk call]
    have s5: "s5 = self" by simp
    from r s2 Inr info c s4 f s5 show ?thesis
      by (cases x) (simp_all add: execute_shared_def Let_def)
  qed
qed

theorem execute_assigns_nothing_witness:
  "(\<forall>m. info_on (pure_env ex_env) m (ex_task\<lparr>response_check := Some check_none\<rparr>)
        = ex_task\<lparr>response_check := Some check_none\<rparr>)
   \<and> (\<forall>m c a ep d hs x. snd (run_on (HttpHook_on (pure_env ex_env) m c a) ep d hs x
        (ex_task\<lparr>response_check := Some check_none\<rparr>))
        = ex_task\<lparr>response_check := Some check_none\<rparr>)
   \<and> (\<forall>f rs. snd (determine_kwargs_on (pure_env ex_env) f rs ex_ctx
        (ex_task\<lparr>response_check := Some check_none\<rparr>))
        = ex_task\<lparr>response_check := Some check_none\<rparr>)
   \<and> (\<forall>f r kw. snd (call_on (pure_env ex_env) f r kw
        (ex_task\<lparr>response_check := Some check_none\<rparr>))
        = ex_task\<lparr>response_check := Some check_none\<rparr>)
   \<and> result (execute_shared (pure_env ex_env)
        (ex_task\<lparr>response_check := Some check_none\<rparr>) ex_ctx)
        = Inl (AirflowException ''Response check returned False.'')
   \<and> self_after (execute_shared (pure_env ex_env)
        (ex_task\<lparr>response_check := Some check_none\<rparr>) ex_ctx)
        = ex_task\<lparr>response_check := Some check_none\<rparr>"
proof -
  let ?e = "pure_env ex_env :: unit shared_env"
  let ?t = "ex_task\<lparr>response_check := Some check_none\<rparr>"
  have h1: "\<And>m. info_on ?e m ?t = ?t"
    by (simp add: pure_env_def)
  have h2: "\<And>m c a ep d hs x. snd (run_on (HttpHook_on ?e m c a) ep d hs x ?t) = ?t"
    by (simp add: pure_env_def)
  have h3: "\<And>f rs. snd (determine_kwargs_on ?e f rs ex_ctx ?t) = ?t"
    by (simp add: pure_env_def)
  have h4: "\<And>f r kw. snd (call_on ?e f r kw ?t) = ?t"
    by (simp add: pure_env_def)
  have c: "self_after (execute_shared ?e ?t ex_ctx) = ?t"
    by (rule execute_assigns_nothing [OF h1 h2 h3 h4])
  have r: "result (execute_shared ?e ?t ex_ctx)
      = Inl (AirflowException ''Response check returned False.'')"
    by (simp add: execute_shared_def execute_check_shared_def pure_env_def ex_env_def
        ex_hook_def ex_task_def ex_ctx_def check_none_def validation_error_def)
  show ?thesis
    using h1 h2 h3 h4 r c by simp
qed

section \<open>Truth values\<close>

text \<open>
  C8. The gate is Python's truth value of what the response check returns, not equality
  with \<^verbatim>\<open>False\<close>: when the check is invoked and returns \<open>v\<close>, \<open>execute\<close> raises the
  validation error if \<open>v\<close> is falsy (\<^verbatim>\<open>False\<close>, \<^verbatim>\<open>None\<close>, \<open>0\<close>, an empty string, an empty
  collection) and otherwise goes on with the response filter block, whose outcome does not
  depend on \<open>v\<close>.
\<close>

theorem check_gate_is_truthiness:
  assumes "http_call e self = Inr resp"
      and "response_check self = Some chk"
      and "determine_kwargs e chk [resp] ctx = Inr kw"
      and "call chk resp kw = Inr v"
  shows "result (execute e self ctx) =
           (if truthy v then fst (execute_filter e self ctx resp) else Inl validation_error)"
  using assms
  by (auto simp: execute_def http_call_def execute_check_def Let_def split: prod.splits)

theorem check_gate_is_truthiness_witness:
  "http_call ex_env (ex_task\<lparr>response_check := Some check_none\<rparr>) = Inr ex_response
   \<and> response_check (ex_task\<lparr>response_check := Some check_none\<rparr>) = Some check_none
   \<and> determine_kwargs ex_env check_none [ex_response] ex_ctx = Inr [(''ds'', PStr ''2022-01-01'')]
   \<and> call check_none ex_response [(''ds'', PStr ''2022-01-01'')] = Inr PNone
   \<and> result (execute ex_env (ex_task\<lparr>response_check := Some check_none\<rparr>) ex_ctx)
       = Inl (AirflowException ''Response check returned False.'')
   \<and> http_call ex_env (ex_task\<lparr>response_check := Some check_text\<rparr>) = Inr ex_response
   \<and> response_check (ex_task\<lparr>response_check := Some check_text\<rparr>) = Some check_text
   \<and> determine_kwargs ex_env check_text [ex_response] ex_ctx = Inr []
   \<and> call check_text ex_response [] = Inr (PStr ''pong'')
   \<and> result (execute ex_env (ex_task\<lparr>response_check := Some check_text\<rparr>) ex_ctx)
       = Inr (PStr ''pong'')"
proof -
  let ?t = "ex_task\<lparr>response_check := Some check_none\<rparr>"
  let ?u = "ex_task\<lparr>response_check := Some check_text\<rparr>"
  let ?kw = "[(''ds'', PStr ''2022-01-01'')]"
  have t1: "http_call ex_env ?t = Inr ex_response" and u1: "http_call ex_env ?u = Inr ex_response"
    by simp_all
  have t2: "response_check ?t = Some check_none" and u2: "response_check ?u = Some check_text"
    by simp_all
  have t3: "determine_kwargs ex_env check_none [ex_response] ex_ctx = Inr ?kw"
    by (simp add: ex_env_def check_none_def ex_ctx_def)
  have u3: "determine_kwargs ex_env check_text [ex_response] ex_ctx = Inr []"
    by (simp add: ex_env_def check_text_def ex_ctx_def)
  have t4: "call check_none ex_response ?kw = Inr PNone"
    by (simp add: check_none_def)
  have u4: "call check_text ex_response [] = Inr (PStr ''pong'')"
    by (simp add: check_text_def ex_response_def)
  have ct: "result (execute ex_env ?t ex_ctx) =
      (if truthy PNone then fst (execute_filter ex_env ?t ex_ctx ex_response)
       else Inl validation_error)"
    by (rule check_gate_is_truthiness [OF t1 t2 t3 t4])
  have cu: "result (execute ex_env ?u ex_ctx) =
      (if truthy (PStr ''pong'') then fst (execute_filter ex_env ?u ex_ctx ex_response)
       else Inl validation_error)"
    by (rule check_gate_is_truthiness [OF u1 u2 u3 u4])
  have f: "fst (execute_filter ex_env ?u ex_ctx ex_response) = Inr (PStr ''pong'')"
    by (simp add: execute_filter_def ex_task_def ex_response_def)
  show ?thesis
    using t1 t2 t3 t4 u1 u2 u3 u4 ct cu f by (simp add: validation_error_def)
qed

text \<open>
  C9. At construction, a falsy value given for \<^verbatim>\<open>headers\<close> or for \<^verbatim>\<open>data\<close> (\<^verbatim>\<open>None\<close>,
  an empty string, \<open>0\<close>, \<^verbatim>\<open>False\<close>, an empty mapping), and not only a missing one, is
  replaced by a new empty dictionary: one at an address that was free before the
  construction, and not the one stored for the other attribute. A task constructed with
  \<^verbatim>\<open>data=""\<close> stores the empty dictionary as its \<^verbatim>\<open>data\<close>.
\<close>

theorem init_replaces_falsy_by_fresh_dict:
  assumes "SimpleHttpOperator_init base a h = Inr (t, h')"
  shows "(\<not> truthy (arg_headers a) \<longrightarrow>
            (\<exists>p. headers t = PDict p [] \<and> h \<le> p \<and> p < h' \<and> data t \<noteq> PDict p []))
       \<and> (\<not> truthy (arg_data a) \<longrightarrow>
            (\<exists>p. data t = PDict p [] \<and> h \<le> p \<and> p < h' \<and> headers t \<noteq> PDict p []))"
  using assms
  by (auto simp: SimpleHttpOperator_init_def or_empty_dict_def Let_def
      split: sum.splits if_splits prod.splits)

theorem init_replaces_falsy_by_fresh_dict_witness:
  "SimpleHttpOperator_init (\<lambda>kw. Inr ())
      (default_args\<lparr>arg_data := PStr '''', arg_headers := PDict 3 []\<rparr>) 7
     = Inr (ex_task\<lparr>http_method := ''POST'', endpoint := None,
                     headers := PDict 7 [], data := PDict 8 [], extra_options := PDict 9 []\<rparr>, 10)
   \<and> \<not> truthy (arg_headers (default_args\<lparr>arg_data := PStr '''', arg_headers := PDict 3 []\<rparr>))
   \<and> \<not> truthy (arg_data (default_args\<lparr>arg_data := PStr '''', arg_headers := PDict 3 []\<rparr>))
   \<and> (\<exists>p. PDict 7 [] = PDict p [] \<and> (7::nat) \<le> p \<and> p < 10 \<and> PDict 8 [] \<noteq> PDict p [])
   \<and> (\<exists>p. PDict 8 [] = PDict p [] \<and> (7::nat) \<le> p \<and> p < 10 \<and> PDict 7 [] \<noteq> PDict p [])"
proof -
  let ?a = "default_args\<lparr>arg_data := PStr '''', arg_headers := PDict 3 []\<rparr>"
  let ?t = "ex_task\<lparr>http_method := ''POST'', endpoint := None,
                     headers := PDict 7 [], data := PDict 8 [], extra_options := PDict 9 []\<rparr>"
  have h: "SimpleHttpOperator_init (\<lambda>kw. Inr ()) ?a 7 = Inr (?t, 10)"
    by (simp add: SimpleHttpOperator_init_def default_args_def or_empty_dict_def ex_task_def)
  have f: "\<not> truthy (arg_headers ?a)" "\<not> truthy (arg_data ?a)"
    by (simp_all add: default_args_def)
  have c: "(\<not> truthy (arg_headers ?a) \<longrightarrow>
            (\<exists>p. headers ?t = PDict p [] \<and> 7 \<le> p \<and> p < 10 \<and> data ?t \<noteq> PDict p []))
       \<and> (\<not> truthy (arg_data ?a) \<longrightarrow>
            (\<exists>p. data ?t = PDict p [] \<and> 7 \<le> p \<and> p < 10 \<and> headers ?t \<noteq> PDict p []))"
    by (rule init_replaces_falsy_by_fresh_dict [OF h])
  show ?thesis
    using h f c by simp
qed

section \<open>Order of the log emission and the response check\<close>

text \<open>
  C10. In every execution with \<^verbatim>\<open>log_response\<close> true in which the response check is
  invoked, the text of the response was given to \<^verbatim>\<open>self.log.info\<close> before that
  invocation; so it is among the log emissions also when the check then returns a falsy
  value and the execution ends in the validation error.
\<close>

theorem response_logged_before_check:
  assumes "truthy (log_response self)"
      and "trace (execute e self ctx) = pre @ CallCheck resp kw # post"
  shows "LogInfo (response_text resp) \<in> set pre
       \<and> (\<forall>chk v. response_check self = Some chk \<and> call chk resp kw = Inr v \<and> \<not> truthy v \<longrightarrow>
            result (execute e self ctx) = Inl validation_error
            \<and> response_text resp \<in> set (log_emissions (trace (execute e self ctx))))"
  using assms
  by (auto simp: execute_def execute_check_def execute_filter_def Let_def
        Cons_eq_append_conv log_emissions_append
      split: sum.splits option.splits if_splits prod.splits)

theorem response_logged_before_check_witness:
  "truthy (log_response (ex_task\<lparr>log_response := PBool True, response_check := Some check_ping\<rparr>))
   \<and> trace (execute ex_env
        (ex_task\<lparr>log_response := PBool True, response_check := Some check_ping\<rparr>) ex_ctx)
       = [LogInfo ''Calling HTTP method'',
          HttpRun (Some ''ping'') (PDict 1 []) (PDict 0 []) (PDict 2 []),
          LogInfo ''pong''] @ CallCheck ex_response [] # []
   \<and> LogInfo (response_text ex_response)
        \<in> set [LogInfo ''Calling HTTP method'',
               HttpRun (Some ''ping'') (PDict 1 []) (PDict 0 []) (PDict 2 []),
               LogInfo ''pong'']
   \<and> response_check (ex_task\<lparr>log_response := PBool True, response_check := Some check_ping\<rparr>)
       = Some check_ping
   \<and> call check_ping ex_response [] = Inr (PBool False)
   \<and> result (execute ex_env
        (ex_task\<lparr>log_response := PBool True, response_check := Some check_ping\<rparr>) ex_ctx)
       = Inl (AirflowException ''Response check returned False.'')
   \<and> ''pong'' \<in> set (log_emissions (trace (execute ex_env
        (ex_task\<lparr>log_response := PBool True, response_check := Some check_ping\<rparr>) ex_ctx)))"
proof -
  let ?t = "ex_task\<lparr>log_response := PBool True, response_check := Some check_ping\<rparr>"
  let ?pre = "[LogInfo ''Calling HTTP method'',
          HttpRun (Some ''ping'') (PDict 1 []) (PDict 0 []) (PDict 2 []),
          LogInfo ''pong'']"
  have h1: "truthy (log_response ?t)"
    by simp
  have h2: "trace (execute ex_env ?t ex_ctx) = ?pre @ CallCheck ex_response [] # []"
    by (simp add: execute_def execute_check_def ex_env_def ex_hook_def ex_task_def ex_ctx_def
        check_ping_def ex_response_def)
  have k: "response_check ?t = Some check_ping"
    by simp
  have v: "call check_ping ex_response [] = Inr (PBool False)"
    by (simp add: check_ping_def ex_response_def)
  have c: "LogInfo (response_text ex_response) \<in> set ?pre
       \<and> (\<forall>chk v. response_check ?t = Some chk \<and> call chk ex_response [] = Inr v
              \<and> \<not> truthy v \<longrightarrow>
            result (execute ex_env ?t ex_ctx) = Inl validation_error
            \<and> response_text ex_response \<in> set (log_emissions (trace (execute ex_env ?t ex_ctx))))"
    by (rule response_logged_before_check [OF h1 h2])
  from c have c1: "LogInfo (response_text ex_response) \<in> set ?pre"
    by (rule conjunct1)
  from c k v have c2: "result (execute ex_env ?t ex_ctx) = Inl validation_error
       \<and> response_text ex_response \<in> set (log_emissions (trace (execute ex_env ?t ex_ctx)))"
    by auto
  show ?thesis
    using h1 h2 c1 k v c2 by (simp add: validation_error_def ex_response_def)
qed

end
